theory Spec2Isabelle
  imports Main "HOL-Library.Sublist"
begin

section \<open>VideoPlayer: the playback recovery controller\<close>

text \<open>
  Source: \<^verbatim>\<open>apps/web/src/features/rtsp/components/rtsp-input.tsx\<close>, component
  \<^verbatim>\<open>VideoPlayer\<close>. The React state \<^verbatim>\<open>PlayerState\<close> is a record of four booleans; a
  \<^verbatim>\<open>Partial<PlayerState>\<close> names any subset of them (\<open>None\<close>: the key is absent).
\<close>

record PlayerState =
  isPlaying :: bool
  isMuted :: bool
  isLoading :: bool
  hasError :: bool

record PartialPlayerState =
  set_isPlaying :: "bool option"
  set_isMuted :: "bool option"
  set_isLoading :: "bool option"
  set_hasError :: "bool option"

definition INITIAL_PLAYER_STATE :: PlayerState where
  "INITIAL_PLAYER_STATE =
     \<lparr>isPlaying = False, isMuted = True, isLoading = False, hasError = False\<rparr>"

text \<open>The empty object literal \<^verbatim>\<open>{}\<close>; the literals of the source extend it.\<close>

definition no_updates :: PartialPlayerState where
  "no_updates =
     \<lparr>set_isPlaying = None, set_isMuted = None, set_isLoading = None, set_hasError = None\<rparr>"

text \<open>One key of the object spread \<^verbatim>\<open>{ ...prev, ...updates }\<close>: a key of \<^verbatim>\<open>updates\<close> wins.\<close>

definition spread_key :: "'a \<Rightarrow> 'a option \<Rightarrow> 'a" where
  "spread_key old new = (case new of None \<Rightarrow> old | Some v \<Rightarrow> v)"

text \<open>\<^verbatim>\<open>setState((prev) => ({ ...prev, ...updates }))\<close>\<close>

definition updateState :: "PartialPlayerState \<Rightarrow> PlayerState \<Rightarrow> PlayerState" where
  "updateState updates prev =
     \<lparr>isPlaying = spread_key (isPlaying prev) (set_isPlaying updates),
      isMuted = spread_key (isMuted prev) (set_isMuted updates),
      isLoading = spread_key (isLoading prev) (set_isLoading updates),
      hasError = spread_key (hasError prev) (set_hasError updates)\<rparr>"

subsection \<open>The pipeline and the component instance\<close>

text \<open>
  \<^verbatim>\<open>Hls.ErrorTypes\<close> of hls.js and the fields of the \<^verbatim>\<open>ERROR\<close> event payload that the
  handler reads (\<^verbatim>\<open>data.fatal\<close>, \<^verbatim>\<open>data.type\<close>, \<^verbatim>\<open>data.details\<close>).
\<close>

datatype ErrorTypes = NETWORK_ERROR | MEDIA_ERROR | KEY_SYSTEM_ERROR | MUX_ERROR | OTHER_ERROR

record ErrorData =
  fatal :: bool
  errorType :: ErrorTypes
  details :: string

text \<open>
  Every call the component makes on the pipeline, the video element and its \<^verbatim>\<open>onError\<close>
  prop is appended to a log. Pipeline instances are numbered in the order of their
  construction.
\<close>

datatype call =
    NewHls nat
  | LoadSource nat string
  | AttachMedia nat
  | StartLoad nat
  | RecoverMediaError nat
  | Destroy nat
  | VideoPlay
  | VideoPause
  | SetVideoSrc string
  | SetVideoMuted bool
  | OnError string

text \<open>
  The props \<^verbatim>\<open>src\<close> and \<^verbatim>\<open>onError\<close>, and what the host provides: whether
  \<^verbatim>\<open>videoRef.current\<close> is set and what \<^verbatim>\<open>Hls.isSupported()\<close> answers. The callback
  \<^verbatim>\<open>onError?: (error: string) => void\<close> is optional (\<open>None\<close>: not given); of a callback
  that is given, all that matters to the component is whether a call of it returns or
  throws.
\<close>

datatype callback = Returns | Throws

record VideoPlayerProps =
  src :: "string option"
  onError :: "callback option"

record host =
  video :: bool
  hlsSupported :: bool

text \<open>
  The component instance: its React state, the ref \<^verbatim>\<open>hlsRef\<close>, the pipeline instances
  that were constructed and not destroyed since (\<open>alive\<close>), the number of instances
  constructed so far, and the call log.
\<close>

record player =
  props :: VideoPlayerProps
  state :: PlayerState
  hlsRef :: "nat option"
  alive :: "nat list"
  constructed :: nat
  calls :: "call list"

definition initial_player :: "VideoPlayerProps \<Rightarrow> player" where
  "initial_player ps =
     \<lparr>props = ps, state = INITIAL_PLAYER_STATE, hlsRef = None, alive = [],
      constructed = 0, calls = []\<rparr>"

definition update :: "PartialPlayerState \<Rightarrow> player \<Rightarrow> player" where
  "update updates p = p\<lparr>state := updateState updates (state p)\<rparr>"

definition emit :: "call list \<Rightarrow> player \<Rightarrow> player" where
  "emit cs p = p\<lparr>calls := calls p @ cs\<rparr>"

text \<open>\<^verbatim>\<open>hls.destroy()\<close> on instance \<open>i\<close>: the instance is no longer alive.\<close>

definition hls_destroy :: "nat \<Rightarrow> player \<Rightarrow> player" where
  "hls_destroy i p = emit [Destroy i] (p\<lparr>alive := removeAll i (alive p)\<rparr>)"

text \<open>
  \<^verbatim>\<open>
  const destroyHls = useCallback(() => {
    if (hlsRef.current) {
      hlsRef.current.destroy();
      hlsRef.current = null;
    }
  }, []);
  \<close>
\<close>

definition destroyHls :: "player \<Rightarrow> player" where
  "destroyHls p =
     (case hlsRef p of
        None \<Rightarrow> p
      | Some i \<Rightarrow> (hls_destroy i p)\<lparr>hlsRef := None\<rparr>)"

text \<open>
  \<^verbatim>\<open>
  const initHls = useCallback(() => {
    const video = videoRef.current;
    if (!video || !src) return;
    destroyHls();
    updateState({ isLoading: true, hasError: false });
    if (Hls.isSupported() && src.endsWith('.m3u8')) {
      const hls = new Hls(HLS_CONFIG);
      hlsRef.current = hls;
      hls.loadSource(src);
      hls.attachMedia(video);
      hls.on(Hls.Events.MANIFEST_PARSED, ...);
      hls.on(Hls.Events.ERROR, ...);
      return;
    }
    video.src = src;
    video.play().catch(() => updateState({ isPlaying: false }));
  }, [src, onError, destroyHls, updateState]);
  \<close>
  \<^verbatim>\<open>!src\<close> holds for \<^verbatim>\<open>null\<close> and for the empty string.
\<close>

definition new_hls :: "string \<Rightarrow> player \<Rightarrow> player" where
  "new_hls s p =
     (let i = constructed p in
      emit [NewHls i, LoadSource i s, AttachMedia i]
        (p\<lparr>constructed := Suc i, alive := alive p @ [i], hlsRef := Some i\<rparr>))"

definition initHls :: "host \<Rightarrow> player \<Rightarrow> player" where
  "initHls h p =
     (case src (props p) of
        None \<Rightarrow> p
      | Some s \<Rightarrow>
          if \<not> video h \<or> s = [] then p
          else
            let p1 = destroyHls p;
                p2 = update (no_updates\<lparr>set_isLoading := Some True, set_hasError := Some False\<rparr>) p1
            in if hlsSupported h \<and> suffix ''.m3u8'' s then new_hls s p2
               else emit [SetVideoSrc s, VideoPlay] p2)"

text \<open>
  \<^verbatim>\<open>
  hls.on(Hls.Events.MANIFEST_PARSED, () => {
    updateState({ isLoading: false, isPlaying: true });
    video.play().catch(() => updateState({ isPlaying: false }));
  });
  \<close>
  The rejection of the promise that \<^verbatim>\<open>video.play()\<close> returns is an event of its own.
\<close>

definition onManifestParsed :: "player \<Rightarrow> player" where
  "onManifestParsed p =
     emit [VideoPlay]
       (update (no_updates\<lparr>set_isLoading := Some False, set_isPlaying := Some True\<rparr>) p)"

definition onPlayRejected :: "player \<Rightarrow> player" where
  "onPlayRejected p = update (no_updates\<lparr>set_isPlaying := Some False\<rparr>) p"

text \<open>
  \<^verbatim>\<open>
  hls.on(Hls.Events.ERROR, (_, data) => {
    if (!data.fatal) return;
    updateState({ isLoading: false });
    switch (data.type) {
      case Hls.ErrorTypes.NETWORK_ERROR:
        hls.startLoad();
        break;
      case Hls.ErrorTypes.MEDIA_ERROR:
        hls.recoverMediaError();
        break;
      default:
        updateState({ hasError: true });
        onError?.('HLS Error: ' + data.details);
        hls.destroy();
    }
  });
  \<close>
  (the message is a template literal in the source). The handler closes over the
  instance \<open>i\<close> it was registered on; \<^verbatim>\<open>data.type\<close> is the field \<open>errorType\<close>. When
  the callback throws, the exception leaves the handler at that statement: the state
  updates already made stand, and \<^verbatim>\<open>hls.destroy()\<close> is not reached.
\<close>

definition onHlsError :: "nat \<Rightarrow> ErrorData \<Rightarrow> player \<Rightarrow> player" where
  "onHlsError i data p =
     (if \<not> fatal data then p
      else
        let p1 = update (no_updates\<lparr>set_isLoading := Some False\<rparr>) p in
        case errorType data of
          NETWORK_ERROR \<Rightarrow> emit [StartLoad i] p1
        | MEDIA_ERROR \<Rightarrow> emit [RecoverMediaError i] p1
        | _ \<Rightarrow>
            let p2 = update (no_updates\<lparr>set_hasError := Some True\<rparr>) p1 in
            case onError (props p2) of
              None \<Rightarrow> hls_destroy i p2
            | Some Returns \<Rightarrow> hls_destroy i (emit [OnError (''HLS Error: '' @ details data)] p2)
            | Some Throws \<Rightarrow> emit [OnError (''HLS Error: '' @ details data)] p2)"

text \<open>
  \<^verbatim>\<open>togglePlay\<close> and \<^verbatim>\<open>toggleMute\<close>, and the four listeners of the video element.
\<close>

definition togglePlay :: "host \<Rightarrow> player \<Rightarrow> player" where
  "togglePlay h p =
     (if \<not> video h then p
      else
        update (no_updates\<lparr>set_isPlaying := Some (\<not> isPlaying (state p))\<rparr>)
          (emit [if isPlaying (state p) then VideoPause else VideoPlay] p))"

definition toggleMute :: "host \<Rightarrow> player \<Rightarrow> player" where
  "toggleMute h p =
     (if \<not> video h then p
      else
        update (no_updates\<lparr>set_isMuted := Some (\<not> isMuted (state p))\<rparr>)
          (emit [SetVideoMuted (\<not> isMuted (state p))] p))"

text \<open>
  What can happen to a mounted component. \<open>Effect\<close> is the body of
  \<^verbatim>\<open>useEffect(() => { initHls(); return destroyHls; }, [initHls, destroyHls])\<close>, which
  React runs on mount and again, after \<open>Cleanup\<close>, when \<^verbatim>\<open>src\<close> or \<^verbatim>\<open>onError\<close> change
  (\<open>NewProps\<close>); \<open>Cleanup\<close> also runs on unmount. \<open>RetryClick\<close> is the button of the
  error overlay, \<^verbatim>\<open>onClick={initHls}\<close>. hls.js drops every listener of an instance when
  the instance is destroyed, so a pipeline event reaches its handler only while the
  instance is alive.
\<close>

datatype event =
    Effect
  | Cleanup
  | NewProps VideoPlayerProps
  | RetryClick
  | ManifestParsed nat
  | HlsError nat ErrorData
  | PlayRejected
  | TogglePlay
  | ToggleMute
  | VideoOnPlay
  | VideoOnPause
  | VideoOnWaiting
  | VideoOnPlaying

fun step :: "host \<Rightarrow> player \<Rightarrow> event \<Rightarrow> player" where
  "step h p Effect = initHls h p"
| "step h p Cleanup = destroyHls p"
| "step h p (NewProps ps) = p\<lparr>props := ps\<rparr>"
| "step h p RetryClick = initHls h p"
| "step h p (ManifestParsed i) = (if i \<in> set (alive p) then onManifestParsed p else p)"
| "step h p (HlsError i data) = (if i \<in> set (alive p) then onHlsError i data p else p)"
| "step h p PlayRejected = onPlayRejected p"
| "step h p TogglePlay = togglePlay h p"
| "step h p ToggleMute = toggleMute h p"
| "step h p VideoOnPlay = update (no_updates\<lparr>set_isPlaying := Some True\<rparr>) p"
| "step h p VideoOnPause = update (no_updates\<lparr>set_isPlaying := Some False\<rparr>) p"
| "step h p VideoOnWaiting = update (no_updates\<lparr>set_isLoading := Some True\<rparr>) p"
| "step h p VideoOnPlaying = update (no_updates\<lparr>set_isLoading := Some False\<rparr>) p"

definition run :: "host \<Rightarrow> player \<Rightarrow> event list \<Rightarrow> player" where
  "run h p evs = foldl (step h) p evs"


text \<open>
  At most one pipeline instance is alive, and it is the one \<^verbatim>\<open>hlsRef\<close> holds.
\<close>

definition single_pipeline :: "player \<Rightarrow> bool" where
  "single_pipeline p =
     (case alive p of
        [] \<Rightarrow> True
      | [i] \<Rightarrow> hlsRef p = Some i
      | _ \<Rightarrow> False)"


text \<open>
  A sample state: the component just mounted on an HLS source, its first pipeline instance
  still loading the manifest.
\<close>

definition loading_player :: player where
  "loading_player =
     initHls \<lparr>video = True, hlsSupported = True\<rparr>
       (initial_player \<lparr>src = Some ''/hls/stream.m3u8'', onError = Some Returns\<rparr>)"

section \<open>OverlayBox: the overlay sync engine\<close>

text \<open>
  Source: \<^verbatim>\<open>apps/web/src/features/overlays/components/overlay-box.tsx\<close>. The component
  keeps a draft position and size, and hands a \<^verbatim>\<open>Partial<Overlay>\<close> to its \<^verbatim>\<open>onUpdate\<close>
  prop through a timeout of \<^verbatim>\<open>DEBOUNCE_DELAY\<close> milliseconds. Coordinates are never
  computed with, so their type is a parameter \<open>'n\<close>. Of the keys of \<^verbatim>\<open>Overlay\<close> only
  the four that the component sends are kept.
\<close>

record 'n OverlayUpdates =
  upd_x :: "'n option"
  upd_y :: "'n option"
  upd_width :: "'n option"
  upd_height :: "'n option"

text \<open>
  The host's timer table. An entry is a pending timeout: its handle, the instant it is
  due, and what its callback closes over (\<^verbatim>\<open>overlay._id\<close> and \<^verbatim>\<open>updates\<close>).
\<close>

datatype 'n timeout =
  Timeout (handle: nat) (due: nat) (callback_id: string) (callback_updates: "'n OverlayUpdates")

text \<open>
  The calls of the component on the host and on its \<^verbatim>\<open>onUpdate\<close> prop; the log keeps each
  with the instant (in milliseconds) at which it was made. \<open>SetTimeout h i u d\<close> is
  \<^verbatim>\<open>setTimeout(() => { onUpdate(i, u); ... }, d)\<close> returning the handle \<open>h\<close>.
\<close>

datatype 'n host_call =
    SetTimeout nat string "'n OverlayUpdates" nat
  | ClearTimeout nat
  | OnUpdate string "'n OverlayUpdates"

record 'n overlay_box =
  overlay_id :: string
  position :: "'n \<times> 'n"
  size_box :: "'n \<times> 'n"
  updateTimeoutRef :: "nat option"
  now :: nat
  next_handle :: nat
  timeouts :: "'n timeout list"
  log :: "(nat \<times> 'n host_call) list"

definition DEBOUNCE_DELAY :: nat where
  "DEBOUNCE_DELAY = 500"

text \<open>
  A freshly mounted component. Timer handles are positive (a browser hands out integers
  greater than zero), so the first one is 1.
\<close>

definition mount_box :: "string \<Rightarrow> 'n \<times> 'n \<Rightarrow> 'n \<times> 'n \<Rightarrow> 'n overlay_box" where
  "mount_box i pos sz =
     \<lparr>overlay_id = i, position = pos, size_box = sz, updateTimeoutRef = None, now = 0,
      next_handle = 1, timeouts = [], log = []\<rparr>"

definition clearTimeout :: "nat \<Rightarrow> 'n overlay_box \<Rightarrow> 'n overlay_box" where
  "clearTimeout h b =
     b\<lparr>timeouts := filter (\<lambda>t. handle t \<noteq> h) (timeouts b),
       log := log b @ [(now b, ClearTimeout h)]\<rparr>"

text \<open>\<open>setTimeout\<close> returns the handle \<open>next_handle b\<close> of the state it is called in.\<close>

definition setTimeout ::
  "string \<Rightarrow> 'n OverlayUpdates \<Rightarrow> nat \<Rightarrow> 'n overlay_box \<Rightarrow> 'n overlay_box" where
  "setTimeout i u delay b =
     b\<lparr>next_handle := Suc (next_handle b),
       timeouts := timeouts b @ [Timeout (next_handle b) (now b + delay) i u],
       log := log b @ [(now b, SetTimeout (next_handle b) i u delay)]\<rparr>"

text \<open>
  \<^verbatim>\<open>if (updateTimeoutRef.current) { clearTimeout(updateTimeoutRef.current); }\<close>: the
  guard of \<^verbatim>\<open>debouncedUpdate\<close> and the whole of the unmount cleanup
  \<^verbatim>\<open>useEffect(() => { return () => { ... }; }, [])\<close>. A handle of 0 would be falsy.
\<close>

definition clear_pending :: "'n overlay_box \<Rightarrow> 'n overlay_box" where
  "clear_pending b =
     (case updateTimeoutRef b of
        None \<Rightarrow> b
      | Some h \<Rightarrow> if h = 0 then b else clearTimeout h b)"

text \<open>
  \<^verbatim>\<open>
  const debouncedUpdate = (updates: Partial<Overlay>) => {
    if (updateTimeoutRef.current) {
      clearTimeout(updateTimeoutRef.current);
    }
    updateTimeoutRef.current = setTimeout(() => {
      onUpdate(overlay._id, updates);
      updateTimeoutRef.current = null;
    }, DEBOUNCE_DELAY);
  };
  \<close>
\<close>

definition debouncedUpdate :: "'n OverlayUpdates \<Rightarrow> 'n overlay_box \<Rightarrow> 'n overlay_box" where
  "debouncedUpdate u b =
     (let b1 = clear_pending b
      in (setTimeout (overlay_id b1) u DEBOUNCE_DELAY b1)\<lparr>updateTimeoutRef := Some (next_handle b1)\<rparr>)"

text \<open>The body of the timeout's callback.\<close>

definition timeout_callback :: "'n timeout \<Rightarrow> 'n overlay_box \<Rightarrow> 'n overlay_box" where
  "timeout_callback t b =
     b\<lparr>log := log b @ [(now b, OnUpdate (callback_id t) (callback_updates t))],
       updateTimeoutRef := None\<rparr>"

text \<open>
  \<^verbatim>\<open>
  const handleDragStop: RndDragCallback = (_, d) => {
    const newPosition = { x: d.x, y: d.y };
    setPosition(newPosition);
    debouncedUpdate(newPosition);
  };
  const handleResizeStop: RndResizeCallback = (_, __, ref, ___, pos) => {
    const newSize = { width: parseInt(ref.style.width), height: parseInt(ref.style.height) };
    setSize(newSize);
    setPosition(pos);
    debouncedUpdate({ ...newSize, x: pos.x, y: pos.y });
  };
  \<close>
  The arguments \<open>w\<close> and \<open>h\<close> of the resize are the two parsed numbers.
\<close>

definition drag_updates :: "'n \<Rightarrow> 'n \<Rightarrow> 'n OverlayUpdates" where
  "drag_updates x y = \<lparr>upd_x = Some x, upd_y = Some y, upd_width = None, upd_height = None\<rparr>"

definition resize_updates :: "'n \<Rightarrow> 'n \<Rightarrow> 'n \<Rightarrow> 'n \<Rightarrow> 'n OverlayUpdates" where
  "resize_updates w h x y =
     \<lparr>upd_x = Some x, upd_y = Some y, upd_width = Some w, upd_height = Some h\<rparr>"

definition handleDragStop :: "'n \<Rightarrow> 'n \<Rightarrow> 'n overlay_box \<Rightarrow> 'n overlay_box" where
  "handleDragStop x y b = debouncedUpdate (drag_updates x y) (b\<lparr>position := (x, y)\<rparr>)"

definition handleResizeStop :: "'n \<Rightarrow> 'n \<Rightarrow> 'n \<Rightarrow> 'n \<Rightarrow> 'n overlay_box \<Rightarrow> 'n overlay_box" where
  "handleResizeStop w h x y b =
     debouncedUpdate (resize_updates w h x y) (b\<lparr>size_box := (w, h), position := (x, y)\<rparr>)"

text \<open>
  The host lets \<open>dt\<close> milliseconds pass: every timeout that falls due in that span runs
  its callback at the instant it is due, the earliest first, and leaves the table. A
  timeout due at the very instant of a later event therefore runs before that event.
\<close>

definition elapse :: "nat \<Rightarrow> 'n overlay_box \<Rightarrow> 'n overlay_box" where
  "elapse dt b =
     (let T = now b + dt;
          ready = sort_key due (filter (\<lambda>t. due t \<le> T) (timeouts b));
          b1 = b\<lparr>timeouts := filter (\<lambda>t. \<not> due t \<le> T) (timeouts b)\<rparr>
      in (fold (\<lambda>t b'. timeout_callback t (b'\<lparr>now := due t\<rparr>)) ready b1)\<lparr>now := T\<rparr>)"

text \<open>What happens to a mounted overlay box: time passes, a gesture stops, it unmounts.\<close>

datatype 'n gesture = DragStop 'n 'n | ResizeStop 'n 'n 'n 'n

datatype 'n box_event = Elapse nat | Gesture "'n gesture" | Unmount

fun box_step :: "'n overlay_box \<Rightarrow> 'n box_event \<Rightarrow> 'n overlay_box" where
  "box_step b (Elapse dt) = elapse dt b"
| "box_step b (Gesture (DragStop x y)) = handleDragStop x y b"
| "box_step b (Gesture (ResizeStop w h x y)) = handleResizeStop w h x y b"
| "box_step b Unmount = clear_pending b"

definition run_box :: "'n overlay_box \<Rightarrow> 'n box_event list \<Rightarrow> 'n overlay_box" where
  "run_box b evs = foldl box_step b evs"

text \<open>The object a gesture hands to \<^verbatim>\<open>debouncedUpdate\<close>.\<close>

fun sent :: "'n gesture \<Rightarrow> 'n OverlayUpdates" where
  "sent (DragStop x y) = drag_updates x y"
| "sent (ResizeStop w h x y) = resize_updates w h x y"



text \<open>The persist calls made so far, each with its instant.\<close>

fun is_OnUpdate :: "'n host_call \<Rightarrow> bool" where
  "is_OnUpdate (OnUpdate i u) = True"
| "is_OnUpdate _ = False"

definition persists :: "'n overlay_box \<Rightarrow> (nat \<times> 'n host_call) list" where
  "persists b = filter (\<lambda>e. is_OnUpdate (snd e)) (log b)"


text \<open>
  \<open>quiet_log l\<close>: every persist call in the log stands directly after the
  \<^verbatim>\<open>setTimeout\<close> that scheduled it, one delay later: nothing at all was logged in
  between. \<open>box_inv\<close> is the invariant of the component: the log is quiet, and the table
  holds at most the one timeout that \<^verbatim>\<open>updateTimeoutRef\<close> points to, not yet due, whose
  scheduling is the last entry of the log.
\<close>

definition quiet_log :: "(nat \<times> 'n host_call) list \<Rightarrow> bool" where
  "quiet_log l \<longleftrightarrow>
     (\<forall>pre t i u post. l = pre @ (t, OnUpdate i u) # post \<longrightarrow>
        (\<exists>pre' h t0. pre = pre' @ [(t0, SetTimeout h i u DEBOUNCE_DELAY)] \<and>
           t = t0 + DEBOUNCE_DELAY))"

definition box_inv :: "'n overlay_box \<Rightarrow> bool" where
  "box_inv b \<longleftrightarrow>
     quiet_log (log b) \<and> 0 < next_handle b \<and>
     (timeouts b = [] \<or>
      (\<exists>h t0 i u pre.
         timeouts b = [Timeout h (t0 + DEBOUNCE_DELAY) i u] \<and>
         updateTimeoutRef b = Some h \<and> h \<noteq> 0 \<and> now b < t0 + DEBOUNCE_DELAY \<and>
         log b = pre @ [(t0, SetTimeout h i u DEBOUNCE_DELAY)]))"

section \<open>Error messages\<close>

text \<open>
  Source: \<^verbatim>\<open>apps/web/src/lib/errors.ts\<close>. The value caught is an \<^verbatim>\<open>AxiosError\<close> (of
  which the function reads \<^verbatim>\<open>response?.data\<close>, \<^verbatim>\<open>code\<close> and \<^verbatim>\<open>message\<close>), another
  \<^verbatim>\<open>Error\<close> (its \<^verbatim>\<open>message\<close>), or anything else. The response body has the fields the
  interface \<^verbatim>\<open>ApiErrorResponse\<close> declares, each a string or absent.
\<close>

record ApiErrorResponse =
  error :: "string option"
  message :: "string option"
  detail :: "string option"

datatype 'v thrown =
    AxiosError "ApiErrorResponse option" "string option" string
  | PlainError string
  | NotAnError 'v

text \<open>\<^verbatim>\<open>ERROR_MESSAGES\<close>, in the order \<^verbatim>\<open>Object.entries\<close> lists its keys.\<close>

definition ERROR_MESSAGES :: "(string \<times> string) list" where
  "ERROR_MESSAGES =
     [(''Invalid RTSP URL format'', ''The RTSP URL format is invalid. Please use rtsp://...''),
      (''Failed to start stream'', ''Could not start the stream. Please verify the URL is accessible.''),
      (''Network Error'', ''Unable to connect to the server. Please check your connection.''),
      (''timeout of'', ''The request timed out. Please try again.''),
      (''ECONNREFUSED'', ''Server is not responding. Please ensure the backend is running.'')]"

text \<open>
  A string or \<^verbatim>\<open>undefined\<close> is truthy when it is a non-empty string; \<^verbatim>\<open>a || b\<close> is
  \<open>a\<close> when \<open>a\<close> is truthy and \<open>b\<close> otherwise. \<^verbatim>\<open>String.prototype.includes\<close> asks for
  a contiguous occurrence.
\<close>

definition truthy :: "string option \<Rightarrow> bool" where
  "truthy v = (case v of None \<Rightarrow> False | Some s \<Rightarrow> s \<noteq> [])"

definition js_or :: "string option \<Rightarrow> string option \<Rightarrow> string option" where
  "js_or a b = (if truthy a then a else b)"

definition includes_str :: "string \<Rightarrow> string \<Rightarrow> bool" where
  "includes_str s key = sublist key s"

text \<open>\<^verbatim>\<open>data?.error || data?.message || data?.detail\<close>\<close>

definition backendMessage :: "ApiErrorResponse option \<Rightarrow> string option" where
  "backendMessage data =
     (case data of
        None \<Rightarrow> None
      | Some d \<Rightarrow> js_or (js_or (error d) (message d)) (detail d))"

text \<open>
  \<^verbatim>\<open>
  for (const [key, friendly] of Object.entries(ERROR_MESSAGES)) {
    if (backendMessage.includes(key)) { return friendly; }
  }
  \<close>
\<close>

fun friendly_for :: "string \<Rightarrow> (string \<times> string) list \<Rightarrow> string option" where
  "friendly_for m [] = None"
| "friendly_for m ((key, friendly) # rest) =
     (if includes_str m key then Some friendly else friendly_for m rest)"

text \<open>
  The part of the \<^verbatim>\<open>AxiosError\<close> branch after the backend message:
  \<^verbatim>\<open>
  if (error.code === 'ECONNABORTED') {
    return 'The request timed out. The stream may take a while to start.';
  }
  if (error.code === 'ERR_NETWORK') { return ERROR_MESSAGES['Network Error']; }
  return error.message || 'An unexpected error occurred';
  \<close>
  The key \<^verbatim>\<open>'Network Error'\<close> is in the table, so the lookup finds it.
\<close>

definition axios_fallback :: "string option \<Rightarrow> string \<Rightarrow> string" where
  "axios_fallback code msg =
     (if code = Some ''ECONNABORTED''
      then ''The request timed out. The stream may take a while to start.''
      else if code = Some ''ERR_NETWORK''
      then (case map_of ERROR_MESSAGES ''Network Error'' of Some f \<Rightarrow> f | None \<Rightarrow> [])
      else if msg \<noteq> [] then msg else ''An unexpected error occurred'')"

text \<open>
  \<^verbatim>\<open>
  function getReadableMessage(error: unknown): string {
    if (error instanceof AxiosError) {
      const data = error.response?.data as ApiErrorResponse | undefined;
      const backendMessage = data?.error || data?.message || data?.detail;
      if (backendMessage) { ... return backendMessage; }
      ...
    }
    if (error instanceof Error) { return error.message; }
    return 'An unexpected error occurred';
  }
  \<close>
\<close>

definition getReadableMessage :: "'v thrown \<Rightarrow> string" where
  "getReadableMessage e =
     (case e of
        AxiosError data code msg \<Rightarrow>
          (case backendMessage data of
             None \<Rightarrow> axios_fallback code msg
           | Some m \<Rightarrow>
               if m = [] then axios_fallback code msg
               else (case friendly_for m ERROR_MESSAGES of Some f \<Rightarrow> f | None \<Rightarrow> m))
      | PlainError msg \<Rightarrow> msg
      | NotAnError v \<Rightarrow> ''An unexpected error occurred'')"

section \<open>RtspInput: submitting a source URL\<close>

text \<open>
  Source: \<^verbatim>\<open>apps/web/src/features/rtsp/components/rtsp-input.tsx\<close>, component
  \<^verbatim>\<open>RtspInput\<close>.
  \<^verbatim>\<open>
  const RTSP_PROTOCOL_PREFIX = 'rtsp://';
  function isValidRtspUrl(url: string): boolean {
    return url.startsWith(RTSP_PROTOCOL_PREFIX);
  }
  \<close>
\<close>

definition RTSP_PROTOCOL_PREFIX :: string where
  "RTSP_PROTOCOL_PREFIX = ''rtsp://''"

definition isValidRtspUrl :: "string \<Rightarrow> bool" where
  "isValidRtspUrl u = prefix RTSP_PROTOCOL_PREFIX u"

text \<open>
  The form's state (the field \<open>isLoading_form\<close> is its \<^verbatim>\<open>isLoading\<close>), what the awaited
  \<^verbatim>\<open>connectStream(url)\<close> comes back with, and the calls the handler makes.
\<close>

record RtspInputState =
  url :: string
  isLoading_form :: bool

datatype 'v connect_result = Resolved string | Rejected "'v thrown"

datatype form_call =
    PreventDefault
  | ToastError string string
  | ToastSuccess string
  | SetIsLoading bool
  | ConnectStream string
  | OnStreamStart string

text \<open>
  \<^verbatim>\<open>
  export function handleApiError(error: unknown, context?: string): void {
    const message = getReadableMessage(error);
    const title = context ? `${context} failed` : 'Error';
    toast.error(title, { description: message });
  }
  \<close>
\<close>

definition handleApiError :: "'v thrown \<Rightarrow> string \<Rightarrow> form_call list" where
  "handleApiError e context =
     [ToastError (if context \<noteq> [] then context @ '' failed'' else ''Error'')
        (getReadableMessage e)]"

text \<open>
  \<^verbatim>\<open>
  const handleSubmit = async (e: FormEvent) => {
    e.preventDefault();
    if (!url) return;
    if (!isValidRtspUrl(url)) {
      toast.error('Invalid URL', { description: 'URL must start with rtsp://' });
      return;
    }
    setIsLoading(true);
    try {
      const response = await connectStream(url);
      onStreamStart(response.streamUrl);
      toast.success('Stream started successfully');
    } catch (error) {
      handleApiError(error, 'Stream connection');
    } finally {
      setIsLoading(false);
    }
  };
  \<close>
  The result is the state once the handler has finished, and its calls in order.
\<close>

definition handleSubmit ::
  "'v connect_result \<Rightarrow> RtspInputState \<Rightarrow> RtspInputState \<times> form_call list" where
  "handleSubmit result f =
     (if url f = [] then (f, [PreventDefault])
      else if \<not> isValidRtspUrl (url f)
      then (f, [PreventDefault, ToastError ''Invalid URL'' ''URL must start with rtsp://''])
      else
        (f\<lparr>isLoading_form := False\<rparr>,
         [PreventDefault, SetIsLoading True, ConnectStream (url f)]
         @ (case result of
              Resolved streamUrl \<Rightarrow>
                [OnStreamStart streamUrl, ToastSuccess ''Stream started successfully'']
            | Rejected e \<Rightarrow> handleApiError e ''Stream connection'')
         @ [SetIsLoading False]))"

section \<open>Stream lifecycle manager\<close>

text \<open>
  The server that supervises the transcoding subprocess is not among the sources; only
  its client (\<^verbatim>\<open>connectStream\<close>, \<^verbatim>\<open>disconnectStream\<close>, \<^verbatim>\<open>getStreamStatus\<close>) is. The
  definitions of this section follow sections 3 and 4.1 of the specification.
\<close>

datatype Status = StatusIdle | StatusConnecting | StatusLive | StatusError

record StreamState =
  status :: Status
  sourceUrl :: "string option"
  startedAt :: "nat option"
  lastError :: "string option"

datatype process_call = Spawn nat string | Terminate nat | Wait nat

datatype lifecycle_fault = ValidationFault | SpawnFault | NoActiveStream

text \<open>
  Modelled from the spec: the manager's state. It owns the stream state, the tracked
  process handle if any, and sees the subprocesses that are running; subprocesses are
  numbered in the order they were spawned, and every spawn, terminate and wait is logged.
\<close>

record manager =
  stream :: StreamState
  tracked :: "nat option"
  running :: "nat list"
  spawned :: nat
  clock :: nat
  process_log :: "process_call list"

definition initial_manager :: manager where
  "initial_manager =
     \<lparr>stream = \<lparr>status = StatusIdle, sourceUrl = None, startedAt = None, lastError = None\<rparr>,
      tracked = None, running = [], spawned = 0, clock = 0, process_log = []\<rparr>"

text \<open>
  Modelled from the spec: the validation of \<^verbatim>\<open>start\<close>, "must declare the expected scheme
  prefix; length-capped; rejected if it contains characters that could be interpreted by
  a command shell: semicolons, pipes, backticks, subshell syntax". The cap is not given,
  so it is a parameter; the backtick is the character 0x60.
\<close>

definition shell_free :: "string \<Rightarrow> bool" where
  "shell_free u \<longleftrightarrow>
     list_all (\<lambda>c. c \<noteq> CHR '';'' \<and> c \<noteq> CHR ''|'' \<and> c \<noteq> CHR 0x60) u \<and> \<not> sublist ''$('' u"

definition valid_source :: "nat \<Rightarrow> string \<Rightarrow> bool" where
  "valid_source cap u \<longleftrightarrow> prefix ''rtsp://'' u \<and> length u \<le> cap \<and> shell_free u"

text \<open>
  Modelled from the spec: "If an existing ProcessHandle is live, it is terminated and
  reaped (waited on, not merely signaled) before the new subprocess is spawned."
  Termination is taken to succeed.
\<close>

definition terminate_and_reap :: "manager \<Rightarrow> manager" where
  "terminate_and_reap m =
     (case tracked m of
        None \<Rightarrow> m
      | Some h \<Rightarrow>
          m\<lparr>running := removeAll h (running m), tracked := None,
            process_log := process_log m @ [Terminate h, Wait h]\<rparr>)"

text \<open>
  Modelled from the spec: \<^verbatim>\<open>start(sourceUrl)\<close>. A malformed address is rejected with the
  state unchanged; otherwise the old handle is disposed of, and the spawn either
  succeeds (\<open>connecting\<close>, the error cleared) or fails (\<open>error\<close>, the cause recorded).
  \<open>spawn_ok\<close> is whether the operating system starts the subprocess.
\<close>

definition start ::
  "nat \<Rightarrow> string \<Rightarrow> bool \<Rightarrow> manager \<Rightarrow> (lifecycle_fault + unit) \<times> manager" where
  "start cap u spawn_ok m =
     (if \<not> valid_source cap u then (Inl ValidationFault, m)
      else
        let m1 = terminate_and_reap m in
        if spawn_ok
        then (Inr (),
              m1\<lparr>running := running m1 @ [spawned m1], tracked := Some (spawned m1),
                 spawned := Suc (spawned m1),
                 process_log := process_log m1 @ [Spawn (spawned m1) u],
                 stream := \<lparr>status = StatusConnecting, sourceUrl = Some u,
                            startedAt = startedAt (stream m1), lastError = None\<rparr>\<rparr>)
        else (Inl SpawnFault,
              m1\<lparr>stream := (stream m1)\<lparr>status := StatusError, lastError := Some ''spawn failed''\<rparr>\<rparr>))"

text \<open>
  Modelled from the spec: \<^verbatim>\<open>stop()\<close> "terminates the tracked ProcessHandle if any; fails
  with a NoActiveStream condition if none exists, without altering state".
\<close>

definition stop :: "manager \<Rightarrow> (lifecycle_fault + unit) \<times> manager" where
  "stop m =
     (case tracked m of
        None \<Rightarrow> (Inl NoActiveStream, m)
      | Some h \<Rightarrow>
          (Inr (),
           (terminate_and_reap m)\<lparr>stream :=
              \<lparr>status = StatusIdle, sourceUrl = None, startedAt = startedAt (stream m),
               lastError = lastError (stream m)\<rparr>\<rparr>))"

text \<open>
  Modelled from the spec: the transition \<open>connecting --ready--> live\<close>, and the
  process-exit watcher, which moves the state to \<open>error\<close> when the tracked subprocess
  exits on its own.
\<close>

definition ready :: "manager \<Rightarrow> manager" where
  "ready m =
     (if status (stream m) = StatusConnecting
      then m\<lparr>stream := (stream m)\<lparr>status := StatusLive, startedAt := Some (clock m)\<rparr>\<rparr>
      else m)"

definition subprocess_exited :: "manager \<Rightarrow> manager" where
  "subprocess_exited m =
     (case tracked m of
        None \<Rightarrow> m
      | Some h \<Rightarrow>
          m\<lparr>running := removeAll h (running m), tracked := None,
            stream := (stream m)\<lparr>status := StatusError, lastError := Some ''subprocess exited''\<rparr>\<rparr>)"

datatype lifecycle_call = Start string bool | Stop | Ready | SubprocessExit | Tick nat

fun manager_step :: "nat \<Rightarrow> manager \<Rightarrow> lifecycle_call \<Rightarrow> manager" where
  "manager_step cap m (Start u spawn_ok) = snd (start cap u spawn_ok m)"
| "manager_step cap m Stop = snd (stop m)"
| "manager_step cap m Ready = ready m"
| "manager_step cap m SubprocessExit = subprocess_exited m"
| "manager_step cap m (Tick dt) = m\<lparr>clock := clock m + dt\<rparr>"

definition run_manager :: "nat \<Rightarrow> manager \<Rightarrow> lifecycle_call list \<Rightarrow> manager" where
  "run_manager cap m cs = foldl (manager_step cap) m cs"

text \<open>At most one subprocess runs, and it is the tracked one.\<close>

definition single_process :: "manager \<Rightarrow> bool" where
  "single_process m =
     (case running m of
        [] \<Rightarrow> True
      | [p] \<Rightarrow> tracked m = Some p
      | _ \<Rightarrow> False)"

section \<open>Properties of the playback recovery controller\<close>

subsection \<open>Bookkeeping: what each operation leaves alone\<close>

lemma single_pipeline_cases:
  "single_pipeline p \<longleftrightarrow> alive p = [] \<or> (\<exists>i. alive p = [i] \<and> hlsRef p = Some i)"
  by (auto simp: single_pipeline_def split: list.splits)

lemma single_pipeline_initial: "single_pipeline (initial_player ps)"
  by (simp add: single_pipeline_def initial_player_def)

lemma alive_update [simp]: "alive (update u p) = alive p"
  and hlsRef_update [simp]: "hlsRef (update u p) = hlsRef p"
  and constructed_update [simp]: "constructed (update u p) = constructed p"
  and calls_update [simp]: "calls (update u p) = calls p"
  and props_update [simp]: "props (update u p) = props p"
  and state_update [simp]: "state (update u p) = updateState u (state p)"
  by (simp_all add: update_def)

lemma alive_emit [simp]: "alive (emit cs p) = alive p"
  and hlsRef_emit [simp]: "hlsRef (emit cs p) = hlsRef p"
  and constructed_emit [simp]: "constructed (emit cs p) = constructed p"
  and calls_emit [simp]: "calls (emit cs p) = calls p @ cs"
  and props_emit [simp]: "props (emit cs p) = props p"
  and state_emit [simp]: "state (emit cs p) = state p"
  by (simp_all add: emit_def)

lemma alive_hls_destroy [simp]: "alive (hls_destroy i p) = removeAll i (alive p)"
  and hlsRef_hls_destroy [simp]: "hlsRef (hls_destroy i p) = hlsRef p"
  and constructed_hls_destroy [simp]: "constructed (hls_destroy i p) = constructed p"
  and calls_hls_destroy [simp]: "calls (hls_destroy i p) = calls p @ [Destroy i]"
  and props_hls_destroy [simp]: "props (hls_destroy i p) = props p"
  and state_hls_destroy [simp]: "state (hls_destroy i p) = state p"
  by (simp_all add: hls_destroy_def)

lemma destroyHls_alive: "single_pipeline p \<Longrightarrow> alive (destroyHls p) = []"
  by (auto simp: single_pipeline_cases destroyHls_def split: option.splits)

lemma destroyHls_ref [simp]: "hlsRef (destroyHls p) = None"
  by (simp add: destroyHls_def split: option.splits)

lemma loading_player_eq:
  "loading_player =
     \<lparr>props = \<lparr>src = Some ''/hls/stream.m3u8'', onError = Some Returns\<rparr>,
      state = \<lparr>isPlaying = False, isMuted = True, isLoading = True, hasError = False\<rparr>,
      hlsRef = Some 0, alive = [0], constructed = 1,
      calls = [NewHls 0, LoadSource 0 ''/hls/stream.m3u8'', AttachMedia 0]\<rparr>"
  by (simp add: loading_player_def initHls_def initial_player_def destroyHls_def Let_def
      new_hls_def update_def updateState_def spread_key_def no_updates_def emit_def
      INITIAL_PLAYER_STATE_def suffix_def)

lemmas player_eval =
  run_def initial_player_def initHls_def destroyHls_def hls_destroy_def new_hls_def
  onHlsError_def onManifestParsed_def onPlayRejected_def togglePlay_def toggleMute_def
  update_def updateState_def spread_key_def no_updates_def emit_def INITIAL_PLAYER_STATE_def
  Let_def suffix_def

subsection \<open>The state update\<close>

text \<open>
  Claim C9. Every call \<^verbatim>\<open>updateState(updates)\<close> sets exactly the fields that
  \<^verbatim>\<open>updates\<close> names, each to the value given, and leaves every other field of
  \<^verbatim>\<open>isPlaying\<close>, \<^verbatim>\<open>isMuted\<close>, \<^verbatim>\<open>isLoading\<close>, \<^verbatim>\<open>hasError\<close> as it was in the
  previous state.
\<close>

theorem updateState_frame:
  "(\<forall>v. set_isPlaying updates = Some v \<longrightarrow> isPlaying (updateState updates prev) = v) \<and>
   (set_isPlaying updates = None \<longrightarrow> isPlaying (updateState updates prev) = isPlaying prev) \<and>
   (\<forall>v. set_isMuted updates = Some v \<longrightarrow> isMuted (updateState updates prev) = v) \<and>
   (set_isMuted updates = None \<longrightarrow> isMuted (updateState updates prev) = isMuted prev) \<and>
   (\<forall>v. set_isLoading updates = Some v \<longrightarrow> isLoading (updateState updates prev) = v) \<and>
   (set_isLoading updates = None \<longrightarrow> isLoading (updateState updates prev) = isLoading prev) \<and>
   (\<forall>v. set_hasError updates = Some v \<longrightarrow> hasError (updateState updates prev) = v) \<and>
   (set_hasError updates = None \<longrightarrow> hasError (updateState updates prev) = hasError prev)"
  by (simp add: updateState_def spread_key_def)

text \<open>
  The update of \<^verbatim>\<open>initHls\<close>, \<^verbatim>\<open>{ isLoading: true, hasError: false }\<close>, on a playing,
  unmuted state that shows an error.
\<close>

theorem updateState_frame_witness:
  "isPlaying (updateState (no_updates\<lparr>set_isLoading := Some True, set_hasError := Some False\<rparr>)
       \<lparr>isPlaying = True, isMuted = False, isLoading = False, hasError = True\<rparr>) = True \<and>
   isMuted (updateState (no_updates\<lparr>set_isLoading := Some True, set_hasError := Some False\<rparr>)
       \<lparr>isPlaying = True, isMuted = False, isLoading = False, hasError = True\<rparr>) = False \<and>
   isLoading (updateState (no_updates\<lparr>set_isLoading := Some True, set_hasError := Some False\<rparr>)
       \<lparr>isPlaying = True, isMuted = False, isLoading = False, hasError = True\<rparr>) = True \<and>
   hasError (updateState (no_updates\<lparr>set_isLoading := Some True, set_hasError := Some False\<rparr>)
       \<lparr>isPlaying = True, isMuted = False, isLoading = False, hasError = True\<rparr>) = False"
  using updateState_frame
    [of "no_updates\<lparr>set_isLoading := Some True, set_hasError := Some False\<rparr>"
        "\<lparr>isPlaying = True, isMuted = False, isLoading = False, hasError = True\<rparr>"]
  by (auto simp: no_updates_def)

subsection \<open>Readiness and autoplay\<close>

text \<open>
  Claim C7. When \<^verbatim>\<open>MANIFEST_PARSED\<close> arrives on a live instance, the component reports
  \<^verbatim>\<open>isPlaying\<close>, clears \<^verbatim>\<open>isLoading\<close> and calls \<^verbatim>\<open>video.play()\<close>. When the promise of
  that play attempt is then rejected, the component sets \<^verbatim>\<open>isPlaying\<close> to false and
  does nothing else: \<^verbatim>\<open>hasError\<close> has the value it had before the manifest arrived, no
  further call is made, and the instances that were alive are alive. The same holds of a
  rejection that arrives in any other state \<open>q\<close> of the component.
\<close>

theorem autoplay_rejection_is_not_a_fault:
  assumes "i \<in> set (alive p)"
  shows "isPlaying (state (step h p (ManifestParsed i))) \<and>
   \<not> isLoading (state (step h p (ManifestParsed i))) \<and>
   calls (step h p (ManifestParsed i)) = calls p @ [VideoPlay] \<and>
   hasError (state (step h p (ManifestParsed i))) = hasError (state p) \<and>
   alive (step h p (ManifestParsed i)) = alive p \<and>
   hlsRef (step h p (ManifestParsed i)) = hlsRef p \<and>
   \<not> isPlaying (state (run h p [ManifestParsed i, PlayRejected])) \<and>
   \<not> isLoading (state (run h p [ManifestParsed i, PlayRejected])) \<and>
   hasError (state (run h p [ManifestParsed i, PlayRejected])) = hasError (state p) \<and>
   isMuted (state (run h p [ManifestParsed i, PlayRejected])) = isMuted (state p) \<and>
   alive (run h p [ManifestParsed i, PlayRejected]) = alive p \<and>
   hlsRef (run h p [ManifestParsed i, PlayRejected]) = hlsRef p \<and>
   constructed (run h p [ManifestParsed i, PlayRejected]) = constructed p \<and>
   calls (run h p [ManifestParsed i, PlayRejected]) = calls p @ [VideoPlay] \<and>
   \<not> isPlaying (state (step h q PlayRejected)) \<and>
   hasError (state (step h q PlayRejected)) = hasError (state q) \<and>
   isLoading (state (step h q PlayRejected)) = isLoading (state q) \<and>
   isMuted (state (step h q PlayRejected)) = isMuted (state q) \<and>
   alive (step h q PlayRejected) = alive q \<and>
   hlsRef (step h q PlayRejected) = hlsRef q \<and>
   constructed (step h q PlayRejected) = constructed q \<and>
   calls (step h q PlayRejected) = calls q"
  using assms
  by (simp add: run_def onManifestParsed_def onPlayRejected_def updateState_def spread_key_def
      no_updates_def)

text \<open>
  The manifest of the instance of \<open>loading_player\<close> is parsed and the browser refuses
  to play.
\<close>

theorem autoplay_rejection_is_not_a_fault_witness:
  "0 \<in> set (alive loading_player) \<and>
   state (run \<lparr>video = True, hlsSupported = True\<rparr> loading_player
       [ManifestParsed 0, PlayRejected])
     = \<lparr>isPlaying = False, isMuted = True, isLoading = False, hasError = False\<rparr> \<and>
   alive (run \<lparr>video = True, hlsSupported = True\<rparr> loading_player
       [ManifestParsed 0, PlayRejected]) = [0] \<and>
   calls (run \<lparr>video = True, hlsSupported = True\<rparr> loading_player
       [ManifestParsed 0, PlayRejected])
     = [NewHls 0, LoadSource 0 ''/hls/stream.m3u8'', AttachMedia 0, VideoPlay]"
proof -
  have live: "0 \<in> set (alive loading_player)"
    by (simp add: loading_player_eq)
  have muted: "isMuted (state loading_player)" and sound: "\<not> hasError (state loading_player)"
    by (simp_all add: loading_player_eq)
  from autoplay_rejection_is_not_a_fault
    [OF live, of "\<lparr>video = True, hlsSupported = True\<rparr>" loading_player]
    live muted sound
  have "state (run \<lparr>video = True, hlsSupported = True\<rparr> loading_player
       [ManifestParsed 0, PlayRejected])
     = \<lparr>isPlaying = False, isMuted = True, isLoading = False, hasError = False\<rparr>"
    by (cases "state (run \<lparr>video = True, hlsSupported = True\<rparr> loading_player
       [ManifestParsed 0, PlayRejected])") simp
  with autoplay_rejection_is_not_a_fault
    [OF live, of "\<lparr>video = True, hlsSupported = True\<rparr>" loading_player] live
  show ?thesis
    by (simp add: loading_player_eq)
qed

subsection \<open>Network faults\<close>

text \<open>
  Claim C2, as amended. An \<^verbatim>\<open>ERROR\<close> event whose \<^verbatim>\<open>data.fatal\<close> is false leaves the
  component exactly as it was, whatever its type: no call on the pipeline, no state
  change. An \<^verbatim>\<open>ERROR\<close> event with \<^verbatim>\<open>data.fatal\<close> true and type \<^verbatim>\<open>NETWORK_ERROR\<close> makes
  the single call \<^verbatim>\<open>hls.startLoad()\<close> on the same instance, destroys and constructs
  nothing, and changes the player state in one field only: \<^verbatim>\<open>isLoading\<close> becomes false
  (\<^verbatim>\<open>hasError\<close>, \<^verbatim>\<open>isPlaying\<close> and \<^verbatim>\<open>isMuted\<close> keep their values).
\<close>

theorem network_fault_handling:
  "onHlsError i (data\<lparr>fatal := False\<rparr>) p = p \<and>
   calls (onHlsError i (data\<lparr>fatal := True, errorType := NETWORK_ERROR\<rparr>) p)
     = calls p @ [StartLoad i] \<and>
   alive (onHlsError i (data\<lparr>fatal := True, errorType := NETWORK_ERROR\<rparr>) p) = alive p \<and>
   hlsRef (onHlsError i (data\<lparr>fatal := True, errorType := NETWORK_ERROR\<rparr>) p) = hlsRef p \<and>
   constructed (onHlsError i (data\<lparr>fatal := True, errorType := NETWORK_ERROR\<rparr>) p)
     = constructed p \<and>
   state (onHlsError i (data\<lparr>fatal := True, errorType := NETWORK_ERROR\<rparr>) p)
     = (state p)\<lparr>isLoading := False\<rparr>"
  by (simp add: onHlsError_def Let_def updateState_def spread_key_def no_updates_def)

text \<open>
  The claim as it was stated fails both ways it can be read. On a network fault that
  the pipeline reports as not fatal, the load loop is not restarted: the handler returns
  at once. On a network fault that does restart the load loop, the state the user sees
  changes: the component was loading, and the loading indicator is switched off.
\<close>

theorem network_fault_counterexample:
  "StartLoad 0 \<notin> set (calls (onHlsError 0
       \<lparr>fatal = False, errorType = NETWORK_ERROR, details = ''fragLoadError''\<rparr> loading_player)) \<and>
   state (onHlsError 0
       \<lparr>fatal = True, errorType = NETWORK_ERROR, details = ''manifestLoadError''\<rparr> loading_player)
     \<noteq> state loading_player"
  by (simp add: loading_player_eq onHlsError_def Let_def update_def updateState_def
      spread_key_def no_updates_def emit_def)

subsection \<open>Fatal faults\<close>









text \<open>
  Left out of the amended claim: a callback that throws. The exception leaves the
  handler before \<^verbatim>\<open>hls.destroy()\<close>, so \<^verbatim>\<open>hasError\<close> is set while the instance is still
  alive.
\<close>

lemma throwing_callback_skips_destroy:
  "alive (step \<lparr>video = True, hlsSupported = True\<rparr>
       (loading_player\<lparr>props := \<lparr>src = Some ''/hls/stream.m3u8'', onError = Some Throws\<rparr>\<rparr>)
       (HlsError 0 \<lparr>fatal = True, errorType = OTHER_ERROR, details = ''internalException''\<rparr>))
     = [0] \<and>
   hasError (state (step \<lparr>video = True, hlsSupported = True\<rparr>
       (loading_player\<lparr>props := \<lparr>src = Some ''/hls/stream.m3u8'', onError = Some Throws\<rparr>\<rparr>)
       (HlsError 0 \<lparr>fatal = True, errorType = OTHER_ERROR, details = ''internalException''\<rparr>)))"
  by (simp add: loading_player_eq player_eval)

subsection \<open>One pipeline at a time\<close>

lemma single_pipeline_destroyHls: "single_pipeline p \<Longrightarrow> single_pipeline (destroyHls p)"
  by (simp add: single_pipeline_cases destroyHls_alive)

lemma single_pipeline_initHls: "single_pipeline p \<Longrightarrow> single_pipeline (initHls h p)"
  by (auto simp: initHls_def Let_def new_hls_def single_pipeline_cases destroyHls_alive
      split: option.splits)

lemma single_pipeline_onHlsError: "single_pipeline p \<Longrightarrow> single_pipeline (onHlsError i d p)"
  by (auto simp: onHlsError_def Let_def single_pipeline_cases
      split: ErrorTypes.splits option.splits callback.splits if_splits)

lemma single_pipeline_frame:
  "single_pipeline p \<Longrightarrow> alive q = alive p \<Longrightarrow> hlsRef q = hlsRef p \<Longrightarrow> single_pipeline q"
  by (simp add: single_pipeline_cases)

lemma single_pipeline_step: "single_pipeline p \<Longrightarrow> single_pipeline (step h p e)"
proof (cases e)
  case Effect
  assume "single_pipeline p"
  with Effect show ?thesis by (simp add: single_pipeline_initHls)
next
  case Cleanup
  assume "single_pipeline p"
  with Cleanup show ?thesis by (simp add: single_pipeline_destroyHls)
next
  case RetryClick
  assume "single_pipeline p"
  with RetryClick show ?thesis by (simp add: single_pipeline_initHls)
next
  case (HlsError i d)
  assume "single_pipeline p"
  with HlsError show ?thesis by (simp add: single_pipeline_onHlsError)
qed (auto elim!: single_pipeline_frame
      simp: onManifestParsed_def onPlayRejected_def togglePlay_def toggleMute_def)

lemma single_pipeline_run: "single_pipeline p \<Longrightarrow> single_pipeline (run h p evs)"
  unfolding run_def by (induction evs arbitrary: p) (simp_all add: single_pipeline_step)

text \<open>
  Claim C4. After every sequence of events on a mounted component at most one pipeline
  instance is alive, and it is the one \<^verbatim>\<open>hlsRef\<close> holds; \<^verbatim>\<open>destroyHls\<close> leaves none
  alive. Whenever \<^verbatim>\<open>initHls\<close> runs past its guard, its first call destroys the
  instance \<^verbatim>\<open>hlsRef\<close> holds, if any, and only then is the new instance constructed (or
  the source handed to the video element), so that the new instance is the only one
  alive: sessions are never layered.
\<close>

theorem attach_never_layers:
  "length (alive (run h (initial_player ps) evs)) \<le> 1 \<and>
   single_pipeline (run h (initial_player ps) evs) \<and>
   alive (destroyHls (run h (initial_player ps) evs)) = [] \<and>
   (\<forall>s. src (props (run h (initial_player ps) evs)) = Some s \<and> s \<noteq> [] \<and> video h \<longrightarrow>
      calls (initHls h (run h (initial_player ps) evs)) =
        calls (run h (initial_player ps) evs)
          @ (case hlsRef (run h (initial_player ps) evs) of Some i \<Rightarrow> [Destroy i] | None \<Rightarrow> [])
          @ (if hlsSupported h \<and> suffix ''.m3u8'' s
             then [NewHls (constructed (run h (initial_player ps) evs)),
                   LoadSource (constructed (run h (initial_player ps) evs)) s,
                   AttachMedia (constructed (run h (initial_player ps) evs))]
             else [SetVideoSrc s, VideoPlay]) \<and>
      alive (initHls h (run h (initial_player ps) evs)) =
        (if hlsSupported h \<and> suffix ''.m3u8'' s
         then [constructed (run h (initial_player ps) evs)] else []))"
proof -
  let ?P = "run h (initial_player ps) evs"
  have inv: "single_pipeline ?P"
    by (rule single_pipeline_run [OF single_pipeline_initial])
  then have len: "length (alive ?P) \<le> 1"
    by (auto simp: single_pipeline_cases)
  have dead: "alive (destroyHls ?P) = []"
    by (rule destroyHls_alive [OF inv])
  have "calls (initHls h ?P) =
        calls ?P @ (case hlsRef ?P of Some i \<Rightarrow> [Destroy i] | None \<Rightarrow> [])
          @ (if hlsSupported h \<and> suffix ''.m3u8'' s
             then [NewHls (constructed ?P), LoadSource (constructed ?P) s, AttachMedia (constructed ?P)]
             else [SetVideoSrc s, VideoPlay]) \<and>
      alive (initHls h ?P) = (if hlsSupported h \<and> suffix ''.m3u8'' s then [constructed ?P] else [])"
    if "src (props ?P) = Some s" "s \<noteq> []" "video h" for s
    using that dead
    by (simp add: initHls_def Let_def new_hls_def destroyHls_def split: option.splits)
  with inv len dead show ?thesis by blast
qed

text \<open>
  A component that is playing its first instance and is attached again: instance 0 is
  destroyed, then instance 1 is constructed.
\<close>

theorem attach_never_layers_witness:
  "alive (initHls \<lparr>video = True, hlsSupported = True\<rparr>
      (run \<lparr>video = True, hlsSupported = True\<rparr>
        (initial_player \<lparr>src = Some ''/hls/stream.m3u8'', onError = None\<rparr>)
        [Effect, ManifestParsed 0])) = [1] \<and>
   calls (initHls \<lparr>video = True, hlsSupported = True\<rparr>
      (run \<lparr>video = True, hlsSupported = True\<rparr>
        (initial_player \<lparr>src = Some ''/hls/stream.m3u8'', onError = None\<rparr>)
        [Effect, ManifestParsed 0])) =
     [NewHls 0, LoadSource 0 ''/hls/stream.m3u8'', AttachMedia 0, VideoPlay,
      Destroy 0, NewHls 1, LoadSource 1 ''/hls/stream.m3u8'', AttachMedia 1]"
proof -
  let ?h = "\<lparr>video = True, hlsSupported = True\<rparr>"
  let ?P = "run ?h (initial_player \<lparr>src = Some ''/hls/stream.m3u8'', onError = None\<rparr>)
     [Effect, ManifestParsed 0]"
  have P: "?P = \<lparr>props = \<lparr>src = Some ''/hls/stream.m3u8'', onError = None\<rparr>,
      state = \<lparr>isPlaying = True, isMuted = True, isLoading = False, hasError = False\<rparr>,
      hlsRef = Some 0, alive = [0], constructed = 1,
      calls = [NewHls 0, LoadSource 0 ''/hls/stream.m3u8'', AttachMedia 0, VideoPlay]\<rparr>"
    by (simp add: player_eval)
  have s: "suffix ''.m3u8'' ''/hls/stream.m3u8''"
    by (simp add: suffix_def)
  from attach_never_layers
    [of ?h "\<lparr>src = Some ''/hls/stream.m3u8'', onError = None\<rparr>" "[Effect, ManifestParsed 0]"]
  show ?thesis
    unfolding P using s by simp
qed

section \<open>Properties of the overlay sync engine\<close>

subsection \<open>One burst, one persist\<close>

lemma box_step_Gesture: "box_step b (Gesture g) = debouncedUpdate (sent g)
   (case g of DragStop x y \<Rightarrow> b\<lparr>position := (x, y)\<rparr>
    | ResizeStop w h x y \<Rightarrow> b\<lparr>size_box := (w, h), position := (x, y)\<rparr>)"
  by (cases g) (simp_all add: handleDragStop_def handleResizeStop_def)


lemma elapse_idle:
  assumes "timeouts b = []"
  shows "elapse dt b = b\<lparr>now := now b + dt\<rparr>"
  using assms by (simp add: elapse_def Let_def)






lemmas box_eval =
  run_box_def mount_box_def elapse_def handleDragStop_def handleResizeStop_def
  debouncedUpdate_def clear_pending_def clearTimeout_def setTimeout_def timeout_callback_def
  DEBOUNCE_DELAY_def Let_def



subsection \<open>Unmounting, and persisting only after quiescence\<close>

lemma quiet_log_snoc:
  assumes "quiet_log l" and "\<not> is_OnUpdate (snd e)"
  shows "quiet_log (l @ [e])"
  unfolding quiet_log_def
proof (intro allI impI)
  fix pre t i u post
  assume eq: "l @ [e] = pre @ (t, OnUpdate i u) # post"
  show "\<exists>pre' h t0. pre = pre' @ [(t0, SetTimeout h i u DEBOUNCE_DELAY)] \<and> t = t0 + DEBOUNCE_DELAY"
  proof (cases post rule: rev_cases)
    case Nil
    with eq have "e = (t, OnUpdate i u)" by simp
    with assms(2) show ?thesis by simp
  next
    case (snoc post' e')
    with eq have "l = pre @ (t, OnUpdate i u) # post'" by simp
    with assms(1) show ?thesis unfolding quiet_log_def by blast
  qed
qed

lemma quiet_log_fire:
  assumes "quiet_log (pre0 @ [(t0, SetTimeout h i u DEBOUNCE_DELAY)])"
  shows "quiet_log ((pre0 @ [(t0, SetTimeout h i u DEBOUNCE_DELAY)])
           @ [(t0 + DEBOUNCE_DELAY, OnUpdate i u)])"
  unfolding quiet_log_def
proof (intro allI impI)
  fix pre t j v post
  assume eq: "(pre0 @ [(t0, SetTimeout h i u DEBOUNCE_DELAY)]) @ [(t0 + DEBOUNCE_DELAY, OnUpdate i u)]
     = pre @ (t, OnUpdate j v) # post"
  show "\<exists>pre' h t0. pre = pre' @ [(t0, SetTimeout h j v DEBOUNCE_DELAY)] \<and> t = t0 + DEBOUNCE_DELAY"
  proof (cases post rule: rev_cases)
    case Nil
    with eq have "pre = pre0 @ [(t0, SetTimeout h i u DEBOUNCE_DELAY)]"
      and "t = t0 + DEBOUNCE_DELAY" and "j = i" and "v = u"
      by auto
    then show ?thesis by blast
  next
    case (snoc post' e')
    with eq have "pre0 @ [(t0, SetTimeout h i u DEBOUNCE_DELAY)] = pre @ (t, OnUpdate j v) # post'"
      by simp
    with assms show ?thesis unfolding quiet_log_def by blast
  qed
qed

lemma box_inv_mount: "box_inv (mount_box i pos sz)"
  by (simp add: box_inv_def mount_box_def quiet_log_def)

lemma clear_pending_inv:
  assumes "box_inv b"
  shows "timeouts (clear_pending b) = [] \<and> quiet_log (log (clear_pending b)) \<and>
         persists (clear_pending b) = persists b \<and> now (clear_pending b) = now b \<and>
         next_handle (clear_pending b) = next_handle b"
  using assms
  by (auto simp: box_inv_def clear_pending_def clearTimeout_def persists_def
      intro!: quiet_log_snoc split: option.splits)

lemma box_inv_clear_pending: "box_inv b \<Longrightarrow> box_inv (clear_pending b)"
  using clear_pending_inv [of b] by (simp add: box_inv_def)

lemma box_inv_debouncedUpdate:
  assumes "box_inv b"
  shows "box_inv (debouncedUpdate u b) \<and> persists (debouncedUpdate u b) = persists b"
proof -
  let ?c = "clear_pending b"
  note c = clear_pending_inv [OF assms]
  from assms have nh: "0 < next_handle b" by (simp add: box_inv_def)
  have q: "quiet_log (log ?c @ [(now ?c, SetTimeout (next_handle ?c) (overlay_id ?c) u DEBOUNCE_DELAY)])"
    by (rule quiet_log_snoc) (use c in simp_all)
  have nz: "0 < DEBOUNCE_DELAY" by (simp add: DEBOUNCE_DELAY_def)
  have "\<exists>h t0 i v pre.
         [Timeout (next_handle ?c) (now ?c + DEBOUNCE_DELAY) (overlay_id ?c) u]
           = [Timeout h (t0 + DEBOUNCE_DELAY) i v] \<and>
         Some (next_handle ?c) = Some h \<and> h \<noteq> 0 \<and> now ?c < t0 + DEBOUNCE_DELAY \<and>
         log ?c @ [(now ?c, SetTimeout (next_handle ?c) (overlay_id ?c) u DEBOUNCE_DELAY)]
           = pre @ [(t0, SetTimeout h i v DEBOUNCE_DELAY)]"
    using nh nz c by (intro exI [of _ "next_handle ?c"] exI [of _ "now ?c"]
        exI [of _ "overlay_id ?c"] exI [of _ u] exI [of _ "log ?c"]) simp
  with q nh c show ?thesis
    by (simp add: box_inv_def debouncedUpdate_def Let_def setTimeout_def persists_def)
qed

lemma box_inv_elapse:
  assumes "box_inv b"
  shows "box_inv (elapse dt b)"
proof (cases "timeouts b")
  case Nil
  with assms show ?thesis
    by (simp add: elapse_idle box_inv_def)
next
  case (Cons t ts)
  with assms obtain h t0 i u pre where
    tm: "timeouts b = [Timeout h (t0 + DEBOUNCE_DELAY) i u]"
    and l: "log b = pre @ [(t0, SetTimeout h i u DEBOUNCE_DELAY)]"
    and nw: "now b < t0 + DEBOUNCE_DELAY"
    and rf: "updateTimeoutRef b = Some h" "h \<noteq> 0"
    by (auto simp: box_inv_def)
  from assms have q: "quiet_log (log b)" and nh: "0 < next_handle b"
    by (simp_all add: box_inv_def)
  show ?thesis
  proof (cases "t0 + DEBOUNCE_DELAY \<le> now b + dt")
    case True
    have e: "elapse dt b = b\<lparr>timeouts := [], updateTimeoutRef := None, now := now b + dt,
        log := log b @ [(t0 + DEBOUNCE_DELAY, OnUpdate i u)]\<rparr>"
      using True tm by (simp add: elapse_def Let_def timeout_callback_def)
    from quiet_log_fire [of pre t0 h i u] q l nh show ?thesis
      unfolding e by (simp add: box_inv_def)
  next
    case False
    have e: "elapse dt b = b\<lparr>now := now b + dt\<rparr>"
      using False tm by (simp add: elapse_def Let_def)
    from False have "now b + dt < t0 + DEBOUNCE_DELAY" by simp
    with q nh tm l rf show ?thesis
      unfolding e by (simp add: box_inv_def)
  qed
qed

lemma box_inv_step: "box_inv b \<Longrightarrow> box_inv (box_step b e)"
proof (cases e)
  case (Elapse dt)
  assume "box_inv b"
  with Elapse show ?thesis by (simp add: box_inv_elapse)
next
  case (Gesture g)
  assume "box_inv b"
  then have "box_inv (case g of DragStop x y \<Rightarrow> b\<lparr>position := (x, y)\<rparr>
    | ResizeStop w h x y \<Rightarrow> b\<lparr>size_box := (w, h), position := (x, y)\<rparr>)"
    by (cases g) (simp_all add: box_inv_def)
  with Gesture show ?thesis
    by (simp add: box_step_Gesture box_inv_debouncedUpdate)
next
  case Unmount
  assume "box_inv b"
  with Unmount show ?thesis by (simp add: box_inv_clear_pending)
qed

lemma box_inv_run: "box_inv b \<Longrightarrow> box_inv (run_box b evs)"
  unfolding run_box_def by (induction evs arbitrary: b) (simp_all add: box_inv_step)

lemma waits_idle:
  "timeouts b = [] \<Longrightarrow>
     timeouts (run_box b (map Elapse waits)) = [] \<and>
     log (run_box b (map Elapse waits)) = log b"
  unfolding run_box_def by (induction waits arbitrary: b) (simp_all add: elapse_idle)

text \<open>
  Claim C6. Whatever happened to the component before, once it unmounts no persist call
  is made any more, however long one waits: the cleanup cancels the pending timeout and
  the table of timeouts is empty. And every persist call the component ever makes was
  triggered by quiescence: in the log it stands directly after the \<^verbatim>\<open>setTimeout\<close> that
  scheduled it, \<^verbatim>\<open>DEBOUNCE_DELAY\<close> later and with the updates of that gesture, so that
  neither a gesture nor an unmount came in between; no other operation persists.
\<close>

theorem unmount_cancels_pending_persist:
  "persists (run_box (run_box (mount_box i pos sz) evs) (Unmount # map Elapse waits))
     = persists (run_box (mount_box i pos sz) evs) \<and>
   timeouts (run_box (run_box (mount_box i pos sz) evs) (Unmount # map Elapse waits)) = [] \<and>
   (\<forall>pre t j u post.
      log (run_box (mount_box i pos sz) evs) = pre @ (t, OnUpdate j u) # post \<longrightarrow>
      (\<exists>pre' h t0. pre = pre' @ [(t0, SetTimeout h j u DEBOUNCE_DELAY)] \<and>
         t = t0 + DEBOUNCE_DELAY))"
proof -
  let ?b = "run_box (mount_box i pos sz) evs"
  have inv: "box_inv ?b"
    by (rule box_inv_run [OF box_inv_mount])
  note c = clear_pending_inv [OF inv]
  have run: "run_box ?b (Unmount # map Elapse waits) = run_box (clear_pending ?b) (map Elapse waits)"
    by (simp add: run_box_def)
  from c have "timeouts (clear_pending ?b) = []" by simp
  note w = waits_idle [OF this, of waits]
  have "persists (run_box ?b (Unmount # map Elapse waits)) = persists ?b"
    unfolding run using w c by (simp add: persists_def)
  moreover have "timeouts (run_box ?b (Unmount # map Elapse waits)) = []"
    unfolding run using w by simp
  moreover from inv have "quiet_log (log ?b)"
    by (simp add: box_inv_def)
  ultimately show ?thesis
    unfolding quiet_log_def by blast
qed

text \<open>
  A first gesture is persisted after 500 ms; a second one is still pending (due at
  1100 ms) when the component unmounts at 700 ms, and is never persisted.
\<close>

theorem unmount_cancels_pending_persist_witness:
  "persists (run_box (mount_box ''ov1'' (0, 0) (100, 50))
      [Gesture (DragStop 10 20), Elapse 600, Gesture (DragStop 30 (40::int)), Elapse 100])
     = [(500, OnUpdate ''ov1'' (drag_updates 10 20))] \<and>
   timeouts (run_box (mount_box ''ov1'' (0, 0) (100, 50))
      [Gesture (DragStop 10 20), Elapse 600, Gesture (DragStop 30 (40::int)), Elapse 100])
     = [Timeout 2 1100 ''ov1'' (drag_updates 30 40)] \<and>
   persists (run_box (run_box (mount_box ''ov1'' (0, 0) (100, 50))
      [Gesture (DragStop 10 20), Elapse 600, Gesture (DragStop 30 (40::int)), Elapse 100])
      (Unmount # map Elapse [1000]))
     = [(500, OnUpdate ''ov1'' (drag_updates 10 20))] \<and>
   (\<exists>pre' h t0.
      [(0, SetTimeout 1 ''ov1'' (drag_updates 10 (20::int)) 500)]
        = pre' @ [(t0, SetTimeout h ''ov1'' (drag_updates 10 20) DEBOUNCE_DELAY)] \<and>
      500 = t0 + DEBOUNCE_DELAY)"
proof -
  let ?evs = "[Gesture (DragStop 10 20), Elapse 600, Gesture (DragStop 30 (40::int)), Elapse 100]"
  let ?b = "run_box (mount_box ''ov1'' (0, 0) (100, 50)) ?evs"
  have l: "log ?b = [(0, SetTimeout 1 ''ov1'' (drag_updates 10 20) 500),
      (500, OnUpdate ''ov1'' (drag_updates 10 20)),
      (600, SetTimeout 2 ''ov1'' (drag_updates 30 40) 500)]"
    by (simp add: box_eval)
  have t: "timeouts ?b = [Timeout 2 1100 ''ov1'' (drag_updates 30 40)]"
    by (simp add: box_eval)
  have p: "persists ?b = [(500, OnUpdate ''ov1'' (drag_updates 10 20))]"
    by (simp add: persists_def l)
  note cancelled = unmount_cancels_pending_persist [of "''ov1''" "(0, 0)" "(100, 50)" ?evs "[1000]"]
  have split: "log ?b =
      [(0, SetTimeout 1 ''ov1'' (drag_updates 10 20) 500)]
      @ (500, OnUpdate ''ov1'' (drag_updates 10 20))
      # [(600, SetTimeout 2 ''ov1'' (drag_updates 30 40) 500)]"
    by (simp add: l)
  from cancelled have "\<forall>pre t j u post.
      log ?b = pre @ (t, OnUpdate j u) # post \<longrightarrow>
      (\<exists>pre' h t0. pre = pre' @ [(t0, SetTimeout h j u DEBOUNCE_DELAY)] \<and>
         t = t0 + DEBOUNCE_DELAY)"
    by blast
  with split have quiet: "\<exists>pre' h t0.
      [(0, SetTimeout 1 ''ov1'' (drag_updates 10 (20::int)) 500)]
        = pre' @ [(t0, SetTimeout h ''ov1'' (drag_updates 10 20) DEBOUNCE_DELAY)] \<and>
      500 = t0 + DEBOUNCE_DELAY"
    by blast
  from cancelled p t quiet show ?thesis
    by simp
qed

section \<open>Properties of the error messages\<close>

lemma friendly_nonempty: "friendly_for m ERROR_MESSAGES = Some f \<Longrightarrow> f \<noteq> []"
  by (auto simp: ERROR_MESSAGES_def split: if_splits)

lemma axios_fallback_nonempty: "axios_fallback code msg \<noteq> []"
  by (simp add: axios_fallback_def ERROR_MESSAGES_def)

text \<open>
  The message is never empty, with one exception: an \<^verbatim>\<open>Error\<close> that is not an
  \<^verbatim>\<open>AxiosError\<close> and whose own message is empty. A value that is no \<^verbatim>\<open>Error\<close> at all
  gets the default message, and a backend message that contains the first key of the
  table is replaced by its friendly text.
\<close>

lemma getReadableMessage_nonempty:
  "e \<noteq> PlainError [] \<Longrightarrow> getReadableMessage e \<noteq> []"
  by (cases e)
    (auto simp: getReadableMessage_def axios_fallback_nonempty
      dest: friendly_nonempty split: option.splits)

lemma getReadableMessage_not_an_error:
  "getReadableMessage (NotAnError v) = ''An unexpected error occurred''"
  by (simp add: getReadableMessage_def)

lemma friendly_first_key:
  "includes_str m ''Invalid RTSP URL format'' \<Longrightarrow>
     getReadableMessage
       (AxiosError (Some \<lparr>error = Some m, message = x, detail = y\<rparr>) code msg)
     = ''The RTSP URL format is invalid. Please use rtsp://...''"
proof -
  assume i: "includes_str m ''Invalid RTSP URL format''"
  then have "m \<noteq> []" by (auto simp: includes_str_def)
  with i show ?thesis
    by (simp add: getReadableMessage_def backendMessage_def js_or_def truthy_def
        ERROR_MESSAGES_def)
qed

text \<open>
  Claim C10 says that the message returned is never empty. For \<^verbatim>\<open>new Error('')\<close> the
  function returns the empty string: the branch for plain errors returns
  \<^verbatim>\<open>error.message\<close> as it is, where the branch for \<^verbatim>\<open>AxiosError\<close> falls back to the
  default message.
\<close>

theorem getReadableMessage_empty_Error:
  "getReadableMessage (PlainError []) = []"
  by (simp add: getReadableMessage_def)

section \<open>Properties of the source URL check\<close>

text \<open>
  The form's own check: a submit calls \<^verbatim>\<open>connectStream\<close>, with the URL of the form,
  exactly when that URL is not empty and starts with \<^verbatim>\<open>rtsp://\<close>. For every other URL
  the form state is unchanged and nothing is called but \<^verbatim>\<open>preventDefault\<close> and, for a
  non-empty URL, the error toast.
\<close>

lemma submit_starts_stream_iff_prefix:
  "(ConnectStream u \<in> set (snd (handleSubmit result f)) \<longleftrightarrow>
      u = url f \<and> url f \<noteq> [] \<and> prefix ''rtsp://'' (url f)) \<and>
   (\<not> (url f \<noteq> [] \<and> prefix ''rtsp://'' (url f)) \<longrightarrow>
      fst (handleSubmit result f) = f \<and>
      snd (handleSubmit result f) =
        PreventDefault
        # (if url f = [] then [] else [ToastError ''Invalid URL'' ''URL must start with rtsp://'']))"
  by (cases result)
    (auto simp: handleSubmit_def isValidRtspUrl_def RTSP_PROTOCOL_PREFIX_def handleApiError_def)

lemma valid_source_iff:
  "valid_source cap u \<longleftrightarrow>
     prefix ''rtsp://'' u \<and> length u \<le> cap \<and>
     CHR '';'' \<notin> set u \<and> CHR ''|'' \<notin> set u \<and> CHR 0x60 \<notin> set u \<and> \<not> sublist ''$('' u"
  by (auto simp: valid_source_def shell_free_def list_all_iff)

text \<open>
  Claim C5. The manager's \<^verbatim>\<open>start\<close> accepts a source URL exactly when it starts with
  \<^verbatim>\<open>rtsp://\<close>, is no longer than the cap and contains no semicolon, no pipe, no backtick
  and no \<^verbatim>\<open>$(\<close>. A subprocess is spawned by \<^verbatim>\<open>start\<close> only for the URL it was given and
  only if that URL is accepted. For every malformed URL \<^verbatim>\<open>start\<close> reports a validation
  fault, spawns nothing and leaves the manager, its status included, exactly as it was.
  Before that, the form hands a URL to \<^verbatim>\<open>connectStream\<close> only if it is the URL of the form
  and starts with \<^verbatim>\<open>rtsp://\<close>; for a URL that is empty or lacks the prefix it makes no
  request and its state is unchanged.
\<close>

theorem source_url_validation:
  "(fst (start cap u spawn_ok m) \<noteq> Inl ValidationFault \<longleftrightarrow>
      prefix ''rtsp://'' u \<and> length u \<le> cap \<and>
      CHR '';'' \<notin> set u \<and> CHR ''|'' \<notin> set u \<and> CHR 0x60 \<notin> set u \<and> \<not> sublist ''$('' u) \<and>
   (\<forall>k u'. Spawn k u' \<in> set (process_log (snd (start cap u spawn_ok m))) \<longrightarrow>
      Spawn k u' \<in> set (process_log m) \<or>
      (u' = u \<and> prefix ''rtsp://'' u \<and> length u \<le> cap \<and>
       CHR '';'' \<notin> set u \<and> CHR ''|'' \<notin> set u \<and> CHR 0x60 \<notin> set u \<and> \<not> sublist ''$('' u)) \<and>
   (\<not> (prefix ''rtsp://'' u \<and> length u \<le> cap \<and>
        CHR '';'' \<notin> set u \<and> CHR ''|'' \<notin> set u \<and> CHR 0x60 \<notin> set u \<and> \<not> sublist ''$('' u) \<longrightarrow>
      start cap u spawn_ok m = (Inl ValidationFault, m) \<and>
      manager_step cap m (Start u spawn_ok) = m) \<and>
   (ConnectStream u \<in> set (snd (handleSubmit result f)) \<longrightarrow>
      u = url f \<and> prefix ''rtsp://'' u) \<and>
   (\<not> (url f \<noteq> [] \<and> prefix ''rtsp://'' (url f)) \<longrightarrow>
      fst (handleSubmit result f) = f \<and>
      (\<forall>v. ConnectStream v \<notin> set (snd (handleSubmit result f))) \<and>
      (\<forall>v. OnStreamStart v \<notin> set (snd (handleSubmit result f))))"
proof -
  let ?ok = "prefix ''rtsp://'' u \<and> length u \<le> cap \<and>
      CHR '';'' \<notin> set u \<and> CHR ''|'' \<notin> set u \<and> CHR 0x60 \<notin> set u \<and> \<not> sublist ''$('' u"
  have v: "valid_source cap u \<longleftrightarrow> ?ok"
    by (rule valid_source_iff)
  have accepted: "fst (start cap u spawn_ok m) \<noteq> Inl ValidationFault \<longleftrightarrow> ?ok"
    unfolding v [symmetric] by (simp add: start_def Let_def)
  have spawn: "Spawn k u' \<in> set (process_log m) \<or> (u' = u \<and> ?ok)"
    if "Spawn k u' \<in> set (process_log (snd (start cap u spawn_ok m)))" for k u'
    using that unfolding v [symmetric]
    by (auto simp: start_def Let_def terminate_and_reap_def split: if_splits option.splits)
  have rejected: "start cap u spawn_ok m = (Inl ValidationFault, m) \<and>
      manager_step cap m (Start u spawn_ok) = m" if "\<not> ?ok"
    using that unfolding v [symmetric] by (simp add: start_def)
  note form = submit_starts_stream_iff_prefix [of _ result f]
  have sent: "u = url f \<and> prefix ''rtsp://'' u"
    if "ConnectStream u \<in> set (snd (handleSubmit result f))"
    using that form [of u] by simp
  have kept: "fst (handleSubmit result f) = f \<and>
      (\<forall>v. ConnectStream v \<notin> set (snd (handleSubmit result f))) \<and>
      (\<forall>v. OnStreamStart v \<notin> set (snd (handleSubmit result f)))"
    if "\<not> (url f \<noteq> [] \<and> prefix ''rtsp://'' (url f))"
    using that form [of u] by auto
  from accepted spawn rejected sent kept show ?thesis
    by blast
qed

text \<open>
  A URL with the right scheme and a semicolon: the form forwards it, and the manager,
  which has a stream live, rejects it and stays as it was. A well-formed URL is accepted
  and is the one spawned.
\<close>

theorem source_url_validation_witness:
  "ConnectStream ''rtsp://cam;reboot''
     \<in> set (snd (handleSubmit (Resolved ''/hls/stream.m3u8'' :: unit connect_result)
         \<lparr>url = ''rtsp://cam;reboot'', isLoading_form = False\<rparr>)) \<and>
   CHR '';'' \<in> set ''rtsp://cam;reboot'' \<and>
   start 2048 ''rtsp://cam;reboot'' True
       (run_manager 2048 initial_manager [Start ''rtsp://camera/a'' True, Ready])
     = (Inl ValidationFault,
        run_manager 2048 initial_manager [Start ''rtsp://camera/a'' True, Ready]) \<and>
   status (stream (run_manager 2048 initial_manager [Start ''rtsp://camera/a'' True, Ready]))
     = StatusLive \<and>
   fst (start 2048 ''rtsp://camera/b'' True initial_manager) \<noteq> Inl ValidationFault \<and>
   fst (handleSubmit (Resolved ''/hls/stream.m3u8'' :: unit connect_result)
       \<lparr>url = ''http://camera/stream'', isLoading_form = False\<rparr>)
     = \<lparr>url = ''http://camera/stream'', isLoading_form = False\<rparr>"
proof -
  let ?m = "run_manager 2048 initial_manager [Start ''rtsp://camera/a'' True, Ready]"
  let ?r = "Resolved ''/hls/stream.m3u8'' :: unit connect_result"
  have forwarded: "ConnectStream ''rtsp://cam;reboot''
     \<in> set (snd (handleSubmit ?r \<lparr>url = ''rtsp://cam;reboot'', isLoading_form = False\<rparr>))"
    by (simp add: handleSubmit_def isValidRtspUrl_def RTSP_PROTOCOL_PREFIX_def)
  have semi: "CHR '';'' \<in> set ''rtsp://cam;reboot''"
    by simp
  have va: "valid_source 2048 ''rtsp://camera/a''"
    by (simp add: valid_source_def shell_free_def sublist_Cons_right)
  have live: "status (stream ?m) = StatusLive"
    using va
    by (simp add: run_manager_def start_def Let_def terminate_and_reap_def ready_def
        initial_manager_def)
  from source_url_validation
    [of 2048 "''rtsp://cam;reboot''" True ?m ?r
        "\<lparr>url = ''http://camera/stream'', isLoading_form = False\<rparr>"]
    semi
  have rejected: "start 2048 ''rtsp://cam;reboot'' True ?m = (Inl ValidationFault, ?m)"
    and kept: "fst (handleSubmit ?r \<lparr>url = ''http://camera/stream'', isLoading_form = False\<rparr>)
      = \<lparr>url = ''http://camera/stream'', isLoading_form = False\<rparr>"
    by simp_all
  from source_url_validation
    [of 2048 "''rtsp://camera/b''" True initial_manager ?r
        "\<lparr>url = ''http://camera/stream'', isLoading_form = False\<rparr>"]
  have accepted: "fst (start 2048 ''rtsp://camera/b'' True initial_manager) \<noteq> Inl ValidationFault"
    by (simp add: sublist_Cons_right)
  from forwarded semi rejected live accepted kept show ?thesis
    by blast
qed

section \<open>Properties of the stream lifecycle manager\<close>

lemma single_process_cases:
  "single_process m \<longleftrightarrow> running m = [] \<or> (\<exists>p. running m = [p] \<and> tracked m = Some p)"
  by (auto simp: single_process_def split: list.splits)

lemma reap_running: "single_process m \<Longrightarrow> running (terminate_and_reap m) = []"
  by (auto simp: single_process_cases terminate_and_reap_def split: option.splits)

lemma single_process_step: "single_process m \<Longrightarrow> single_process (manager_step cap m c)"
proof (cases c)
  case (Start u ok)
  assume "single_process m"
  from reap_running [OF this] Start \<open>single_process m\<close> show ?thesis
    by (simp add: start_def Let_def single_process_cases)
next
  case Stop
  assume "single_process m"
  from reap_running [OF this] Stop \<open>single_process m\<close> show ?thesis
    by (auto simp: stop_def single_process_cases split: option.splits)
next
  case Ready
  assume "single_process m"
  with Ready show ?thesis by (simp add: ready_def single_process_cases)
next
  case SubprocessExit
  assume "single_process m"
  with SubprocessExit show ?thesis
    by (auto simp: subprocess_exited_def single_process_cases split: option.splits)
next
  case (Tick dt)
  assume "single_process m"
  with Tick show ?thesis by (simp add: single_process_cases)
qed

lemma single_process_run: "single_process m \<Longrightarrow> single_process (run_manager cap m cs)"
  unfolding run_manager_def by (induction cs arbitrary: m) (simp_all add: single_process_step)

text \<open>
  Claim C8. After every sequence of \<^verbatim>\<open>start\<close> and \<^verbatim>\<open>stop\<close> calls (and of readiness
  signals, subprocess exits and the passing of time) at most one subprocess is running.
  A \<^verbatim>\<open>start\<close> with a valid address first terminates and waits on the tracked handle, if
  there is one, and only then spawns: the new subprocess is the only one running.
\<close>

theorem single_active_subprocess:
  "length (running (run_manager cap initial_manager cs)) \<le> 1 \<and>
   running (terminate_and_reap (run_manager cap initial_manager cs)) = [] \<and>
   (valid_source cap u \<longrightarrow>
      process_log (snd (start cap u True (run_manager cap initial_manager cs))) =
        process_log (run_manager cap initial_manager cs)
        @ (case tracked (run_manager cap initial_manager cs) of
             Some h \<Rightarrow> [Terminate h, Wait h] | None \<Rightarrow> [])
        @ [Spawn (spawned (run_manager cap initial_manager cs)) u] \<and>
      running (snd (start cap u True (run_manager cap initial_manager cs))) =
        [spawned (run_manager cap initial_manager cs)])"
proof -
  let ?m = "run_manager cap initial_manager cs"
  have inv: "single_process ?m"
    by (rule single_process_run) (simp add: single_process_def initial_manager_def)
  then have len: "length (running ?m) \<le> 1"
    by (auto simp: single_process_cases)
  note dead = reap_running [OF inv]
  have "process_log (snd (start cap u True ?m)) =
        process_log ?m @ (case tracked ?m of Some h \<Rightarrow> [Terminate h, Wait h] | None \<Rightarrow> [])
        @ [Spawn (spawned ?m) u] \<and>
      running (snd (start cap u True ?m)) = [spawned ?m]" if "valid_source cap u"
    using that dead
    by (simp add: start_def Let_def terminate_and_reap_def split: option.splits)
  with len dead show ?thesis by blast
qed

text \<open>
  A second \<^verbatim>\<open>start\<close> while the first stream is live: subprocess 0 is terminated and
  reaped before subprocess 1 is spawned.
\<close>

theorem single_active_subprocess_witness:
  "valid_source 2048 ''rtsp://camera/b'' \<and>
   running (run_manager 2048 initial_manager [Start ''rtsp://camera/a'' True, Ready]) = [0] \<and>
   process_log (snd (start 2048 ''rtsp://camera/b'' True
       (run_manager 2048 initial_manager [Start ''rtsp://camera/a'' True, Ready])))
     = [Spawn 0 ''rtsp://camera/a'', Terminate 0, Wait 0, Spawn 1 ''rtsp://camera/b''] \<and>
   running (snd (start 2048 ''rtsp://camera/b'' True
       (run_manager 2048 initial_manager [Start ''rtsp://camera/a'' True, Ready]))) = [1]"
proof -
  let ?m = "run_manager 2048 initial_manager [Start ''rtsp://camera/a'' True, Ready]"
  have va: "valid_source 2048 ''rtsp://camera/a''" and vb: "valid_source 2048 ''rtsp://camera/b''"
    by (simp_all add: valid_source_def shell_free_def sublist_Cons_right)
  have m: "?m = \<lparr>stream = \<lparr>status = StatusLive, sourceUrl = Some ''rtsp://camera/a'',
        startedAt = Some 0, lastError = None\<rparr>,
      tracked = Some 0, running = [0], spawned = 1, clock = 0,
      process_log = [Spawn 0 ''rtsp://camera/a'']\<rparr>"
    using va
    by (simp add: run_manager_def start_def Let_def terminate_and_reap_def ready_def
        initial_manager_def)
  from single_active_subprocess [of 2048 "[Start ''rtsp://camera/a'' True, Ready]" "''rtsp://camera/b''"]
    vb
  show ?thesis
    unfolding m by simp
qed

end
